theory Spec2Isabelle
  imports Main "HOL-Library.Sublist" "HOL-Library.AList"
begin

section \<open>JavaScript values and conventions\<close>

text \<open>
  A value raised by \<^verbatim>\<open>throw\<close> or by a rejected promise.  The actions only ever ask
  \<^verbatim>\<open>error instanceof Error ? error.message : fallback\<close>, so a thrown value is either an
  \<^verbatim>\<open>Error\<close> with its message or some other value.
\<close>

datatype thrown = JsError string | JsOther

definition error_message_or :: "thrown \<Rightarrow> string \<Rightarrow> string" where
  "error_message_or err fallback = (case err of JsError m \<Rightarrow> m | JsOther \<Rightarrow> fallback)"

text \<open>Truthiness of a string (\<^verbatim>\<open>!s\<close> holds for the empty string) and of an optional string.\<close>

definition truthy :: "string \<Rightarrow> bool" where
  "truthy s = (s \<noteq> [])"

definition truthy_opt :: "string option \<Rightarrow> bool" where
  "truthy_opt v = (case v of None \<Rightarrow> False | Some s \<Rightarrow> truthy s)"

text \<open>\<^verbatim>\<open>v || undefined\<close> and \<^verbatim>\<open>v || d\<close> on optional strings.\<close>

definition or_undefined :: "string option \<Rightarrow> string option" where
  "or_undefined v = (if truthy_opt v then v else None)"

definition or_default :: "string option \<Rightarrow> string \<Rightarrow> string" where
  "or_default v d = (case v of None \<Rightarrow> d | Some s \<Rightarrow> if truthy s then s else d)"

text \<open>Decimal rendering of a non-negative integer, as a template literal prints it.\<close>

definition digit_char :: "nat \<Rightarrow> char" where
  "digit_char d = ''0123456789'' ! (d mod 10)"

function string_of_nat :: "nat \<Rightarrow> string" where
  "string_of_nat n =
     (if n < 10 then [digit_char n] else string_of_nat (n div 10) @ [digit_char (n mod 10)])"
  by pat_completeness auto
termination
  by (relation "measure id") auto

declare string_of_nat.simps [simp del]

section \<open>Data model\<close>

text \<open>
  One row of \<^verbatim>\<open>plaid_items\<close> (the table of src/unnamed/part\_000, with the column added
  by migration 003 and \<^verbatim>\<open>access_token\<close> made nullable by src/unnamed/part\_006).  The
  columns the database fills in by itself and no action reads
  (\<^verbatim>\<open>id\<close>, \<^verbatim>\<open>created_at\<close>, \<^verbatim>\<open>last_synced_at\<close>, \<^verbatim>\<open>metadata\<close>) are left out.
\<close>

record plaid_item =
  user_id :: string
  item_id :: string
  access_token :: "string option"
  access_token_encrypted :: "string option"
  institution_id :: "string option"
  institution_name :: "string option"
  status :: string
  error_code :: "string option"

text \<open>The request and the response of the provider's \<^verbatim>\<open>linkTokenCreate\<close>.\<close>

record link_token_request =
  client_user_id :: string
  client_name :: string
  products :: "string list"
  country_codes :: "string list"
  language :: string
  webhook :: "string option"
  redirect_uri :: "string option"

record link_token_data =
  link_token :: string
  expiration :: string

text \<open>A call that reached the third-party banking API.\<close>

datatype plaid_call =
  LinkTokenCreate link_token_request
| ItemPublicTokenExchange string

record mcp_session =
  userId :: string

record user_row =
  user_email :: "string option"
  user_name :: "string option"

record confirmation_email =
  mail_to :: string
  mail_user_name :: string
  mail_institution :: string
  mail_is_first_account :: bool

text \<open>
  The state the actions change: the \<^verbatim>\<open>plaid_items\<close> table, the calls made to the banking
  API, the confirmation mails handed to the mail service, and the errors written with
  \<^verbatim>\<open>console.error\<close> (label and cause).
\<close>

record world =
  plaid_items :: "plaid_item list"
  plaid_calls :: "plaid_call list"
  emails_sent :: "confirmation_email list"
  console_errors :: "(string \<times> thrown) list"

text \<open>
  The collaborators of the actions that are not part of the sources, each given by what it
  answers: the request headers, the OAuth session lookup, the subscription helper, the
  database pool and its read queries, the provider's client, the credential cipher and the
  mail service.  \<open>Inl\<close> or \<open>Some\<close> of a thrown value is a call that throws.
\<close>

record env =
  headers :: "thrown + (string \<rightharpoonup> string)"
  getMcpSession :: "(string \<rightharpoonup> string) \<Rightarrow> thrown + mcp_session option"
  hasActiveSubscription :: "string \<Rightarrow> thrown + bool"
  item_query_error :: "thrown option"
  pool_connect :: "thrown option"
  query_subscription_plan :: "string \<Rightarrow> thrown + string option list"
  query_user :: "string \<Rightarrow> thrown + user_row list"
  query_count_error :: "thrown option"
  BETTER_AUTH_URL :: "string option"
  getPlaidClient :: "thrown option"
  linkTokenCreate :: "link_token_request \<Rightarrow> thrown + link_token_data"
  itemPublicTokenExchange :: "string \<Rightarrow> thrown + string \<times> string"
  encrypt :: "string \<Rightarrow> thrown + string"
  DuplicateItem :: thrown
  import_EmailService :: "thrown option"
  sendBankConnectionConfirmation :: "confirmation_email \<Rightarrow> thrown option"

definition log_error :: "string \<Rightarrow> thrown \<Rightarrow> world \<Rightarrow> world" where
  "log_error label err w = w\<lparr>console_errors := console_errors w @ [(label, err)]\<rparr>"

section \<open>The banking-API service (src/lib/services/plaid-service.ts)\<close>

text \<open>The request of lines 28-38.\<close>

definition link_request :: "env \<Rightarrow> string \<Rightarrow> string option \<Rightarrow> link_token_request" where
  "link_request e uid redirectUri = \<lparr>
     client_user_id = uid,
     client_name = ''AskMyMoney'',
     products = [''transactions'', ''auth'', ''investments'', ''liabilities''],
     country_codes = [''US''],
     language = ''en'',
     webhook = (case BETTER_AUTH_URL e of
                  None \<Rightarrow> None
                | Some url \<Rightarrow> if truthy url then Some (url @ ''/api/plaid/webhook'') else None),
     redirect_uri = or_undefined redirectUri \<rparr>"

definition createLinkToken ::
  "env \<Rightarrow> string \<Rightarrow> string option \<Rightarrow> world \<Rightarrow> (thrown + link_token_data) \<times> world" where
  "createLinkToken e uid redirectUri w =
     (let request = link_request e uid redirectUri
      in case getPlaidClient e of
           Some err \<Rightarrow>
             (Inl (JsError (''Failed to create link token: '' @ error_message_or err ''Unknown error'')),
              log_error ''Error creating link token:'' err w)
         | None \<Rightarrow>
             (let w1 = w\<lparr>plaid_calls := plaid_calls w @ [LinkTokenCreate request]\<rparr>
              in case linkTokenCreate e request of
                   Inl err \<Rightarrow>
                     (Inl (JsError (''Failed to create link token: '' @ error_message_or err ''Unknown error'')),
                      log_error ''Error creating link token:'' err w1)
                 | Inr data \<Rightarrow> (Inr data, w1)))"

definition exchangePublicToken ::
  "env \<Rightarrow> string \<Rightarrow> world \<Rightarrow> (thrown + string \<times> string) \<times> world" where
  "exchangePublicToken e publicToken w =
     (case getPlaidClient e of
        Some err \<Rightarrow>
          (Inl (JsError (''Failed to exchange public token: '' @ error_message_or err ''Unknown error'')),
           log_error ''Error exchanging public token:'' err w)
      | None \<Rightarrow>
          (let w1 = w\<lparr>plaid_calls := plaid_calls w @ [ItemPublicTokenExchange publicToken]\<rparr>
           in case itemPublicTokenExchange e publicToken of
                Inl err \<Rightarrow>
                  (Inl (JsError (''Failed to exchange public token: '' @ error_message_or err ''Unknown error'')),
                   log_error ''Error exchanging public token:'' err w1)
              | Inr (accessToken, itemId) \<Rightarrow> (Inr (accessToken, itemId), w1)))"

section \<open>The item store\<close>

text \<open>
  An \<^verbatim>\<open>INSERT\<close> into \<^verbatim>\<open>plaid_items\<close> under the table's constraint
  \<^verbatim>\<open>UNIQUE(user_id, item_id)\<close> (src/unnamed/part\_000, line 16): the row is refused when a
  row with the same pair is present, and appended otherwise.
\<close>

definition item_key :: "plaid_item \<Rightarrow> string \<times> string" where
  "item_key r = (user_id r, item_id r)"

definition insert_plaid_item :: "plaid_item list \<Rightarrow> plaid_item \<Rightarrow> plaid_item list option" where
  "insert_plaid_item rows r =
     (if item_key r \<in> set (map item_key rows) then None else Some (rows @ [r]))"

text \<open>
  Modelled from the spec: \<^verbatim>\<open>UserService.getUserPlaidItems\<close> (lib/services/user-service.ts is
  not among the sources), the spec's \<^verbatim>\<open>getUserItems(userId, activeOnly) -> [Item]\<close>: the
  user's rows, only the active ones when \<^verbatim>\<open>activeOnly\<close> is set.
\<close>

definition getUserPlaidItems :: "env \<Rightarrow> string \<Rightarrow> bool \<Rightarrow> world \<Rightarrow> thrown + plaid_item list" where
  "getUserPlaidItems e uid activeOnly w =
     (case item_query_error e of
        Some err \<Rightarrow> Inl err
      | None \<Rightarrow>
          Inr (filter (\<lambda>r. user_id r = uid \<and> (if activeOnly then status r = ''active'' else True))
                 (plaid_items w)))"

text \<open>
  Modelled from the spec: \<^verbatim>\<open>UserService.savePlaidItem\<close> (lib/services/user-service.ts is not
  among the sources), the spec's \<^verbatim>\<open>createItem(userId, externalItemId, plaintextToken,
  institutionId?, institutionName?) -> Item\<close>: "encrypts via Credential Cipher, then inserts;
  violates the uniqueness invariant -> DuplicateItem".  The new row is active and holds the
  ciphertext only.  What is thrown for a duplicate is the collaborator value
  \<open>DuplicateItem\<close>.
\<close>

definition savePlaidItem ::
  "env \<Rightarrow> string \<Rightarrow> string \<Rightarrow> string \<Rightarrow> string option \<Rightarrow> string option \<Rightarrow> world
    \<Rightarrow> (thrown + plaid_item) \<times> world" where
  "savePlaidItem e uid itemId accessToken institutionId institutionName w =
     (case encrypt e accessToken of
        Inl err \<Rightarrow> (Inl err, w)
      | Inr ciphertext \<Rightarrow>
          (let row = \<lparr>
                 user_id = uid,
                 item_id = itemId,
                 access_token = None,
                 access_token_encrypted = Some ciphertext,
                 institution_id = institutionId,
                 institution_name = institutionName,
                 status = ''active'',
                 error_code = None \<rparr>
           in case insert_plaid_item (plaid_items w) row of
                None \<Rightarrow> (Inl (DuplicateItem e), w)
              | Some rows \<Rightarrow> (Inr row, w\<lparr>plaid_items := rows\<rparr>)))"

section \<open>The connect-bank server actions (src/app/connect-bank/actions.ts)\<close>

datatype link_token_result =
  LinkSuccess string string
| LinkFailure string

datatype exchange_token_result =
  ExchangeSuccess string "string option"
| ExchangeFailure string

record plaid_institution =
  md_institution_id :: "string option"
  md_name :: "string option"

record plaid_metadata =
  institution :: "plaid_institution option"

text \<open>
  Lines 31-35 and 128-132: the headers handed to the session lookup are the request's, with
  \<^verbatim>\<open>Authorization\<close> replaced by \<^verbatim>\<open>Bearer <mcpToken>\<close> when a (non-empty) token is passed.
  Header names are kept in lower case, as \<^verbatim>\<open>Headers\<close> does.
\<close>

definition auth_headers :: "(string \<rightharpoonup> string) \<Rightarrow> string option \<Rightarrow> (string \<rightharpoonup> string)" where
  "auth_headers headersList mcpToken =
     (case mcpToken of
        None \<Rightarrow> headersList
      | Some t \<Rightarrow> if truthy t then headersList(''authorization'' \<mapsto> ''Bearer '' @ t) else headersList)"

text \<open>\<^verbatim>\<open>!mcpSession?.userId\<close> fails to hold exactly for a session with a non-empty user id.\<close>

definition session_user :: "mcp_session option \<Rightarrow> string option" where
  "session_user mcpSession =
     (case mcpSession of
        None \<Rightarrow> None
      | Some s \<Rightarrow> if truthy (userId s) then Some (userId s) else None)"

text \<open>
  Lines 80-89.  \<^verbatim>\<open>planLimits\<close> is an object literal, so a lookup also finds what every object
  inherits from \<^verbatim>\<open>Object.prototype\<close>: for those names the value is not nullish, the default
  \<^verbatim>\<open>?? 3\<close> is not taken, and the value is not a number.
\<close>

datatype js_limit = Limit nat | NotANumber

definition object_prototype_keys :: "string list" where
  "object_prototype_keys =
     [''constructor'', ''__defineGetter__'', ''__defineSetter__'', ''hasOwnProperty'',
      ''__lookupGetter__'', ''__lookupSetter__'', ''isPrototypeOf'', ''propertyIsEnumerable'',
      ''toString'', ''valueOf'', ''__proto__'', ''toLocaleString'']"

definition planLimits :: "string \<Rightarrow> js_limit option" where
  "planLimits plan =
     (if plan = ''basic'' then Some (Limit 3)
      else if plan = ''pro'' then Some (Limit 10)
      else if plan = ''enterprise'' then Some (Limit 999999)
      else if plan \<in> set object_prototype_keys then Some NotANumber
      else None)"

definition plan_of_rows :: "string option list \<Rightarrow> string" where
  "plan_of_rows rows = (case rows of [] \<Rightarrow> ''basic'' | subscription # _ \<Rightarrow> or_default subscription ''basic'')"

definition maxAccounts_of :: "string \<Rightarrow> js_limit" where
  "maxAccounts_of plan = (case planLimits plan of None \<Rightarrow> Limit 3 | Some v \<Rightarrow> v)"

text \<open>\<^verbatim>\<open>existingItems.length >= maxAccounts\<close>; a comparison with a non-number is false.\<close>

definition limit_reached :: "nat \<Rightarrow> js_limit \<Rightarrow> bool" where
  "limit_reached n maxAccounts = (case maxAccounts of Limit m \<Rightarrow> n \<ge> m | NotANumber \<Rightarrow> False)"

text \<open>
  The message of line 94.  It is only ever built for a number, since the comparison fails for
  anything else; \<open>limit_text\<close> has a text for the other case only to be total.
\<close>

definition limit_text :: "js_limit \<Rightarrow> string" where
  "limit_text maxAccounts = (case maxAccounts of Limit m \<Rightarrow> string_of_nat m | NotANumber \<Rightarrow> ''NaN'')"

definition limit_message :: "js_limit \<Rightarrow> string" where
  "limit_message maxAccounts =
     ''Account limit reached. Your plan allows '' @ limit_text maxAccounts
       @ '' bank account(s). Please upgrade or remove an existing connection.''"

text \<open>The \<^verbatim>\<open>catch\<close> of \<^verbatim>\<open>createPlaidLinkToken\<close>, lines 109-115.\<close>

definition createPlaidLinkToken_catch :: "thrown \<Rightarrow> world \<Rightarrow> link_token_result \<times> world" where
  "createPlaidLinkToken_catch err w =
     (LinkFailure (error_message_or err ''Failed to initialize bank connection''),
      log_error ''[Server Action] createPlaidLinkToken error:'' err w)"

text \<open>
  Lines 25-116.  Each \<^verbatim>\<open>await\<close> that can throw is a \<open>case\<close> whose \<open>Inl\<close> or \<open>Some\<close> branch is the
  \<^verbatim>\<open>catch\<close>; the three early returns are the three failures.  \<^verbatim>\<open>client.release()\<close> in the
  \<^verbatim>\<open>finally\<close> and the \<^verbatim>\<open>console.log\<close> lines change nothing that is tracked here.
\<close>

definition createPlaidLinkToken :: "env \<Rightarrow> string option \<Rightarrow> world \<Rightarrow> link_token_result \<times> world" where
  "createPlaidLinkToken e mcpToken w =
     (case headers e of
        Inl err \<Rightarrow> createPlaidLinkToken_catch err w
      | Inr headersList \<Rightarrow>
     (case getMcpSession e (auth_headers headersList mcpToken) of
        Inl err \<Rightarrow> createPlaidLinkToken_catch err w
      | Inr mcpSession \<Rightarrow>
     (case session_user mcpSession of
        None \<Rightarrow> (LinkFailure ''Authentication required. Please sign in first through ChatGPT.'', w)
      | Some uid \<Rightarrow>
     (case hasActiveSubscription e uid of
        Inl err \<Rightarrow> createPlaidLinkToken_catch err w
      | Inr hasSubscription \<Rightarrow>
          if \<not> hasSubscription
          then (LinkFailure ''Active subscription required. Please subscribe first.'', w)
          else
     (case getUserPlaidItems e uid True w of
        Inl err \<Rightarrow> createPlaidLinkToken_catch err w
      | Inr existingItems \<Rightarrow>
     (case pool_connect e of
        Some err \<Rightarrow> createPlaidLinkToken_catch err w
      | None \<Rightarrow>
     (case query_subscription_plan e uid of
        Inl err \<Rightarrow> createPlaidLinkToken_catch err w
      | Inr rows \<Rightarrow>
          (let plan = plan_of_rows rows;
               maxAccounts = maxAccounts_of plan
           in if limit_reached (length existingItems) maxAccounts
              then (LinkFailure (limit_message maxAccounts), w)
              else (case createLinkToken e uid None w of
                      (Inl err, w1) \<Rightarrow> createPlaidLinkToken_catch err w1
                    | (Inr linkTokenData, w1) \<Rightarrow>
                        (LinkSuccess (link_token linkTokenData) (expiration linkTokenData), w1))))))))))"

text \<open>
  The notification block, lines 188-228.  The inner \<^verbatim>\<open>try\<close> (lines 190-224) imports the
  mail service, reads the user and the number of the user's active rows
  (\<^verbatim>\<open>SELECT COUNT(*) FROM plaid_items WHERE user_id = $1 AND status = 'active'\<close>), and sends
  the mail when the user has an address and the institution has a name.  It yields the mail
  it sent, if any, or what it threw.
\<close>

definition send_connection_email ::
  "env \<Rightarrow> string \<Rightarrow> string option \<Rightarrow> world \<Rightarrow> thrown + confirmation_email option" where
  "send_connection_email e uid institutionName w =
     (case import_EmailService e of
        Some err \<Rightarrow> Inl err
      | None \<Rightarrow>
     (case pool_connect e of
        Some err \<Rightarrow> Inl err
      | None \<Rightarrow>
     (case query_user e uid of
        Inl err \<Rightarrow> Inl err
      | Inr userRows \<Rightarrow>
     (case query_count_error e of
        Some err \<Rightarrow> Inl err
      | None \<Rightarrow>
          (let accountCount =
                 length (filter (\<lambda>r. user_id r = uid \<and> status r = ''active'') (plaid_items w));
               isFirstAccount = (accountCount = 1)
           in case userRows of
                [] \<Rightarrow> Inr None
              | user # _ \<Rightarrow>
                  (case (user_email user, institutionName) of
                     (Some address, Some instName) \<Rightarrow>
                       if truthy address \<and> truthy instName
                       then (let mail = \<lparr>
                                   mail_to = address,
                                   mail_user_name = or_default (user_name user) ''there'',
                                   mail_institution = instName,
                                   mail_is_first_account = isFirstAccount \<rparr>
                             in case sendBankConnectionConfirmation e mail of
                                  Some err \<Rightarrow> Inl err
                                | None \<Rightarrow> Inr (Some mail))
                       else Inr None
                   | _ \<Rightarrow> Inr None))))))"

text \<open>The outer \<^verbatim>\<open>try/catch\<close> around it, lines 189 and 225-228: a failure is logged, not rethrown.\<close>

definition notify_connection :: "env \<Rightarrow> string \<Rightarrow> string option \<Rightarrow> world \<Rightarrow> world" where
  "notify_connection e uid institutionName w =
     (case send_connection_email e uid institutionName w of
        Inl err \<Rightarrow> log_error ''[Server Action] Failed to send bank connection email:'' err w
      | Inr None \<Rightarrow> w
      | Inr (Some mail) \<Rightarrow> w\<lparr>emails_sent := emails_sent w @ [mail]\<rparr>)"

text \<open>The \<^verbatim>\<open>catch\<close> of \<^verbatim>\<open>exchangePlaidPublicToken\<close>, lines 235-241.\<close>

definition exchangePlaidPublicToken_catch :: "thrown \<Rightarrow> world \<Rightarrow> exchange_token_result \<times> world" where
  "exchangePlaidPublicToken_catch err w =
     (ExchangeFailure (error_message_or err ''Failed to connect bank account''),
      log_error ''[Server Action] exchangePlaidPublicToken error:'' err w)"

definition metadata_institution_id :: "plaid_metadata \<Rightarrow> string option" where
  "metadata_institution_id metadata =
     (case institution metadata of None \<Rightarrow> None | Some i \<Rightarrow> or_undefined (md_institution_id i))"

definition metadata_institution_name :: "plaid_metadata \<Rightarrow> string option" where
  "metadata_institution_name metadata =
     (case institution metadata of None \<Rightarrow> None | Some i \<Rightarrow> or_undefined (md_name i))"

text \<open>
  Lines 118-242: authentication and subscription as above, the guard on the public token, the
  exchange, the insertion of the row, the notification, success.
\<close>

definition exchangePlaidPublicToken ::
  "env \<Rightarrow> string \<Rightarrow> plaid_metadata \<Rightarrow> string option \<Rightarrow> world \<Rightarrow> exchange_token_result \<times> world" where
  "exchangePlaidPublicToken e publicToken metadata mcpToken w =
     (case headers e of
        Inl err \<Rightarrow> exchangePlaidPublicToken_catch err w
      | Inr headersList \<Rightarrow>
     (case getMcpSession e (auth_headers headersList mcpToken) of
        Inl err \<Rightarrow> exchangePlaidPublicToken_catch err w
      | Inr mcpSession \<Rightarrow>
     (case session_user mcpSession of
        None \<Rightarrow> (ExchangeFailure ''Authentication required. Please sign in first through ChatGPT.'', w)
      | Some uid \<Rightarrow>
     (case hasActiveSubscription e uid of
        Inl err \<Rightarrow> exchangePlaidPublicToken_catch err w
      | Inr hasSubscription \<Rightarrow>
          if \<not> hasSubscription
          then (ExchangeFailure ''Active subscription required. Please subscribe first.'', w)
          else if \<not> truthy publicToken
          then (ExchangeFailure ''Missing public token'', w)
          else
     (case exchangePublicToken e publicToken w of
        (Inl err, w1) \<Rightarrow> exchangePlaidPublicToken_catch err w1
      | (Inr (accessToken, itemId), w1) \<Rightarrow>
          (let institutionId = metadata_institution_id metadata;
               institutionName = metadata_institution_name metadata
           in case savePlaidItem e uid itemId accessToken institutionId institutionName w1 of
                (Inl err, w2) \<Rightarrow> exchangePlaidPublicToken_catch err w2
              | (Inr saved, w2) \<Rightarrow>
                  (ExchangeSuccess itemId institutionName,
                   notify_connection e uid institutionName w2)))))))"

section \<open>The actions that take the user id (src/unnamed/part\_003)\<close>

text \<open>
  A second pair of exported server actions bears the same two names; it takes the user id
  as an argument.  They are written here with the suffix \<open>_by_id\<close>.
\<close>

datatype link_by_id_result =
  LinkByIdSuccess string
| LinkByIdFailure string

datatype exchange_by_id_result =
  ExchangeByIdSuccess
| ExchangeByIdFailure string

record PlaidInstitution =
  inst_id :: "string option"
  inst_name :: "string option"

definition createPlaidLinkToken_by_id :: "env \<Rightarrow> string \<Rightarrow> world \<Rightarrow> link_by_id_result \<times> world" where
  "createPlaidLinkToken_by_id e uid w =
     (if \<not> truthy uid then (LinkByIdFailure ''User ID is required'', w)
      else case createLinkToken e uid None w of
             (Inl err, w1) \<Rightarrow>
               (LinkByIdFailure ''Failed to create Plaid link token'',
                log_error ''Error creating Plaid link token:'' err w1)
           | (Inr data, w1) \<Rightarrow> (LinkByIdSuccess (link_token data), w1))"

definition exchangePlaidPublicToken_by_id ::
  "env \<Rightarrow> string \<Rightarrow> string \<Rightarrow> PlaidInstitution \<Rightarrow> world \<Rightarrow> exchange_by_id_result \<times> world" where
  "exchangePlaidPublicToken_by_id e uid publicToken inst w =
     (if \<not> truthy uid then (ExchangeByIdFailure ''User ID is required'', w)
      else case exchangePublicToken e publicToken w of
             (Inl err, w1) \<Rightarrow>
               (ExchangeByIdFailure ''Failed to exchange Plaid public token'',
                log_error ''Error exchanging Plaid public token:'' err w1)
           | (Inr (accessToken, itemId), w1) \<Rightarrow>
               (case savePlaidItem e uid itemId accessToken (inst_id inst) (inst_name inst) w1 of
                  (Inl err, w2) \<Rightarrow>
                    (ExchangeByIdFailure ''Failed to exchange Plaid public token'',
                     log_error ''Error exchanging Plaid public token:'' err w2)
                | (Inr saved, w2) \<Rightarrow> (ExchangeByIdSuccess, w2)))"

section \<open>States of the item table\<close>

text \<open>No two rows of the table agree on both the user and the external item id.\<close>

definition unique_items :: "plaid_item list \<Rightarrow> bool" where
  "unique_items rows = distinct (map item_key rows)"

text \<open>
  The worlds that the four actions, called any number of times with whatever their
  collaborators answer, lead to from a table without such a pair of rows (the empty table of
  a fresh database among them).
\<close>

inductive reachable :: "world \<Rightarrow> bool" where
  reachable_init: "unique_items (plaid_items w) \<Longrightarrow> reachable w"
| reachable_link: "reachable w \<Longrightarrow> reachable (snd (createPlaidLinkToken e mcpToken w))"
| reachable_exchange:
    "reachable w \<Longrightarrow> reachable (snd (exchangePlaidPublicToken e publicToken metadata mcpToken w))"
| reachable_link_by_id: "reachable w \<Longrightarrow> reachable (snd (createPlaidLinkToken_by_id e uid w))"
| reachable_exchange_by_id:
    "reachable w \<Longrightarrow> reachable (snd (exchangePlaidPublicToken_by_id e uid publicToken inst w))"

section \<open>The three checks of the link-token action\<close>

text \<open>
  Check 1 (lines 27-53): the user the session lookup resolves the bearer to, if the lookup
  answers with a session that has a user id.
\<close>

definition authenticated_user :: "env \<Rightarrow> string option \<Rightarrow> string option" where
  "authenticated_user e mcpToken =
     (case headers e of
        Inl err \<Rightarrow> None
      | Inr headersList \<Rightarrow>
          (case getMcpSession e (auth_headers headersList mcpToken) of
             Inl err \<Rightarrow> None
           | Inr mcpSession \<Rightarrow> session_user mcpSession))"

text \<open>Check 2 (lines 55-62).\<close>

definition subscription_ok :: "env \<Rightarrow> string \<Rightarrow> bool" where
  "subscription_ok e uid = (hasActiveSubscription e uid = Inr True)"

text \<open>
  Check 3 (lines 64-96): the active items and the plan are read, and the number of items
  is below the plan's limit.
\<close>

definition quota_ok :: "env \<Rightarrow> string \<Rightarrow> world \<Rightarrow> bool" where
  "quota_ok e uid w =
     (case getUserPlaidItems e uid True w of
        Inl err \<Rightarrow> False
      | Inr existingItems \<Rightarrow>
          (case pool_connect e of
             Some err \<Rightarrow> False
           | None \<Rightarrow>
               (case query_subscription_plan e uid of
                  Inl err \<Rightarrow> False
                | Inr rows \<Rightarrow>
                    \<not> limit_reached (length existingItems) (maxAccounts_of (plan_of_rows rows)))))"

section \<open>The session cache (src/lib/services/session-service.ts)\<close>

record UserSession =
  sessionId :: string
  accessToken :: string
  itemId :: string
  createdAt :: int
  lastAccessedAt :: int

text \<open>
  The private \<^verbatim>\<open>Map<string, UserSession>\<close> as the list of its entries in insertion order:
  \<^verbatim>\<open>set\<close> replaces the value of a key that is present and appends a new key
  (\<open>AList.update\<close>), \<^verbatim>\<open>delete\<close> drops the key (\<open>AList.delete\<close>), \<^verbatim>\<open>get\<close> is \<open>map_of\<close>.
  Times are milliseconds since the epoch; \<^verbatim>\<open>new Date()\<close> is the argument \<open>now\<close>, and the
  identifier that \<^verbatim>\<open>randomBytes(32).toString('hex')\<close> draws is the argument \<open>random_hex\<close>.
  The service's log lines are left out.
\<close>

type_synonym sessions = "(string \<times> UserSession) list"

definition createSession :: "string \<Rightarrow> int \<Rightarrow> string \<Rightarrow> string \<Rightarrow> sessions \<Rightarrow> string \<times> sessions" where
  "createSession random_hex now token item ss =
     (let sid = random_hex;
          session = \<lparr>
            sessionId = sid,
            accessToken = token,
            itemId = item,
            createdAt = now,
            lastAccessedAt = now \<rparr>
      in (sid, AList.update sid session ss))"

definition getAccessToken :: "int \<Rightarrow> string \<Rightarrow> sessions \<Rightarrow> string option \<times> sessions" where
  "getAccessToken now sid ss =
     (case map_of ss sid of
        None \<Rightarrow> (None, ss)
      | Some session \<Rightarrow>
          (Some (accessToken session), AList.update sid (session\<lparr>lastAccessedAt := now\<rparr>) ss))"

definition isValidSession :: "string \<Rightarrow> sessions \<Rightarrow> bool" where
  "isValidSession sid ss = (map_of ss sid \<noteq> None)"

definition deleteSession :: "string \<Rightarrow> sessions \<Rightarrow> bool \<times> sessions" where
  "deleteSession sid ss = (map_of ss sid \<noteq> None, AList.delete sid ss)"

definition getSessionInfo :: "string \<Rightarrow> sessions \<Rightarrow> (string \<times> string \<times> int \<times> int) option" where
  "getSessionInfo sid ss =
     (case map_of ss sid of
        None \<Rightarrow> None
      | Some session \<Rightarrow>
          Some (sessionId session, itemId session, createdAt session, lastAccessedAt session))"

text \<open>
  The sweep, lines 108-128: the loop over the entries, deleting each one whose age exceeds
  \<open>maxAge\<close> and counting the deletions.  \<open>maxAgeInDays\<close> defaults to 30.
\<close>

definition max_age_ms :: "int option \<Rightarrow> int" where
  "max_age_ms maxAgeInDays = (case maxAgeInDays of None \<Rightarrow> 30 | Some d \<Rightarrow> d) * 24 * 60 * 60 * 1000"

fun cleanup_loop :: "int \<Rightarrow> int \<Rightarrow> (string \<times> UserSession) list \<Rightarrow> sessions \<Rightarrow> nat \<Rightarrow> nat \<times> sessions" where
  "cleanup_loop now maxAge [] ss deletedCount = (deletedCount, ss)"
| "cleanup_loop now maxAge ((sid, session) # entries) ss deletedCount =
     (let age = now - lastAccessedAt session
      in if age > maxAge
         then cleanup_loop now maxAge entries (AList.delete sid ss) (deletedCount + 1)
         else cleanup_loop now maxAge entries ss deletedCount)"

definition cleanupOldSessions :: "int \<Rightarrow> int option \<Rightarrow> sessions \<Rightarrow> nat \<times> sessions" where
  "cleanupOldSessions now maxAgeInDays ss = cleanup_loop now (max_age_ms maxAgeInDays) ss ss 0"

text \<open>Calls of the service's methods, and the cache after a sequence of them.\<close>

datatype session_op =
  CreateSession string int string string
| GetAccessToken int string
| IsValidSession string
| GetSessionInfo string
| DeleteSession string
| CleanupOldSessions int "int option"

fun exec_op :: "session_op \<Rightarrow> sessions \<Rightarrow> sessions" where
  "exec_op (CreateSession random_hex now token item) ss = snd (createSession random_hex now token item ss)"
| "exec_op (GetAccessToken now sid) ss = snd (getAccessToken now sid ss)"
| "exec_op (IsValidSession sid) ss = ss"
| "exec_op (GetSessionInfo sid) ss = ss"
| "exec_op (DeleteSession sid) ss = snd (deleteSession sid ss)"
| "exec_op (CleanupOldSessions now maxAgeInDays) ss = snd (cleanupOldSessions now maxAgeInDays ss)"

fun run_ops :: "session_op list \<Rightarrow> sessions \<Rightarrow> sessions" where
  "run_ops [] ss = ss"
| "run_ops (op # ops) ss = run_ops ops (exec_op op ss)"

text \<open>
  A call removes the session \<open>sid\<close> when it deletes it, when it is a sweep at a time at which
  the session is older than the sweep's limit, or when it creates a session for which the
  same identifier is drawn again (\<^verbatim>\<open>Map.set\<close> then replaces the entry).
\<close>

fun removes :: "string \<Rightarrow> session_op \<Rightarrow> sessions \<Rightarrow> bool" where
  "removes sid (DeleteSession k) ss = (k = sid)"
| "removes sid (CreateSession random_hex now token item) ss = (random_hex = sid)"
| "removes sid (CleanupOldSessions now maxAgeInDays) ss =
     (case map_of ss sid of
        None \<Rightarrow> False
      | Some session \<Rightarrow> now - lastAccessedAt session > max_age_ms maxAgeInDays)"
| "removes sid (GetAccessToken now k) ss = False"
| "removes sid (IsValidSession k) ss = False"
| "removes sid (GetSessionInfo k) ss = False"

fun kept_by :: "string \<Rightarrow> session_op list \<Rightarrow> sessions \<Rightarrow> bool" where
  "kept_by sid [] ss = True"
| "kept_by sid (op # ops) ss = (\<not> removes sid op ss \<and> kept_by sid ops (exec_op op ss))"

text \<open>
  The cache maps the identifier \<open>sid\<close> to a session that holds \<open>token\<close>, and no identifier
  occurs twice among its entries (as in a \<^verbatim>\<open>Map\<close>).
\<close>

definition holds_token :: "string \<Rightarrow> string \<Rightarrow> sessions \<Rightarrow> bool" where
  "holds_token sid token ss =
     (distinct (map fst ss) \<and>
      (case map_of ss sid of None \<Rightarrow> False | Some session \<Rightarrow> accessToken session = token))"

section \<open>A concrete deployment\<close>

text \<open>
  One user \<open>u1\<close> on the basic plan whose bearer token is \<open>tok_u1\<close>, and collaborators that
  all answer.  The provider exchanges the public token \<open>public-n\<close> for the item \<open>item_n\<close>.
\<close>

definition demo_session :: "(string \<rightharpoonup> string) \<Rightarrow> thrown + mcp_session option" where
  "demo_session h =
     (if h ''authorization'' = Some ''Bearer tok_u1'' then Inr (Some \<lparr>userId = ''u1''\<rparr>) else Inr None)"

definition demo_exchange :: "string \<Rightarrow> thrown + string \<times> string" where
  "demo_exchange publicToken =
     (if publicToken = ''public-4'' then Inr (''access-4'', ''item_4'')
      else if publicToken = ''public-1'' then Inr (''tok_abc'', ''item_1'')
      else Inl (JsError ''INVALID_PUBLIC_TOKEN: could not find matching public token''))"

definition demo_env :: env where
  "demo_env = \<lparr>
     headers = Inr Map.empty,
     getMcpSession = demo_session,
     hasActiveSubscription = (\<lambda>uid. Inr (uid = ''u1'')),
     item_query_error = None,
     pool_connect = None,
     query_subscription_plan = (\<lambda>uid. Inr (if uid = ''u1'' then [Some ''basic''] else [])),
     query_user = (\<lambda>uid. Inr [\<lparr>user_email = Some ''u1@example.com'', user_name = Some ''Una''\<rparr>]),
     query_count_error = None,
     BETTER_AUTH_URL = Some ''https://app.example.com'',
     getPlaidClient = None,
     linkTokenCreate = (\<lambda>q. Inr \<lparr>link_token = ''link-sandbox-1'', expiration = ''2030-01-01T00:00:00Z''\<rparr>),
     itemPublicTokenExchange = demo_exchange,
     encrypt = (\<lambda>t. Inr (''gcm:'' @ rev t)),
     DuplicateItem = JsError ''Failed to save Plaid item'',
     import_EmailService = None,
     sendBankConnectionConfirmation = (\<lambda>m. None) \<rparr>"

definition demo_item :: "string \<Rightarrow> plaid_item" where
  "demo_item item = \<lparr>
     user_id = ''u1'',
     item_id = item,
     access_token = None,
     access_token_encrypted = Some ''gcm:terces'',
     institution_id = Some ''ins_1'',
     institution_name = Some ''First Bank'',
     status = ''active'',
     error_code = None \<rparr>"

definition demo_world :: "string list \<Rightarrow> world" where
  "demo_world itemIds = \<lparr>
     plaid_items = map demo_item itemIds,
     plaid_calls = [],
     emails_sent = [],
     console_errors = [] \<rparr>"

definition demo_metadata :: plaid_metadata where
  "demo_metadata = \<lparr>institution = Some \<lparr>md_institution_id = Some ''ins_4'', md_name = Some ''Fourth Bank''\<rparr>\<rparr>"

text \<open>The same deployment when nobody is signed in and nobody is subscribed.\<close>

definition demo_env_signed_out :: env where
  "demo_env_signed_out = demo_env\<lparr>
     getMcpSession := (\<lambda>h. Inr None),
     hasActiveSubscription := (\<lambda>uid. Inr False) \<rparr>"

definition demo_institution :: PlaidInstitution where
  "demo_institution = \<lparr>inst_id = Some ''ins_4'', inst_name = Some ''Fourth Bank''\<rparr>"



definition demo_env_mail_down :: env where
  "demo_env_mail_down = demo_env\<lparr>
     sendBankConnectionConfirmation := (\<lambda>m. Some (JsError ''SMTP connection refused'')) \<rparr>"

text \<open>A concrete history of the cache: what happened before a session is created, and after.\<close>

definition demo_ops_before :: "session_op list" where
  "demo_ops_before = [CreateSession ''0f'' 500 ''access-0'' ''item_0'']"

definition demo_ops_after :: "session_op list" where
  "demo_ops_after =
     [GetAccessToken 2000 ''ab12'',
      CreateSession ''cd34'' 3000 ''access-2'' ''item_2'',
      CleanupOldSessions 5000 None,
      DeleteSession ''0f'']"

section \<open>Properties\<close>

subsection \<open>Calls to the banking API\<close>

lemma createLinkToken_calls:
  "plaid_calls (snd (createLinkToken e uid r w)) = plaid_calls w
   \<or> (\<exists>q. plaid_calls (snd (createLinkToken e uid r w)) = plaid_calls w @ [LinkTokenCreate q]
          \<and> client_user_id q = uid)"
  by (simp add: createLinkToken_def link_request_def log_error_def Let_def split: option.splits sum.splits)

lemma catch_link_calls [simp]:
  "plaid_calls (snd (createPlaidLinkToken_catch err w)) = plaid_calls w"
  by (simp add: createPlaidLinkToken_catch_def log_error_def)

lemma authenticated_userD:
  assumes "authenticated_user e mcpToken = Some uid"
  obtains hs s where "headers e = Inr hs" "getMcpSession e (auth_headers hs mcpToken) = Inr s"
    "session_user s = Some uid"
  using assms by (auto simp: authenticated_user_def split: sum.splits)

lemma link_unauthenticated:
  "authenticated_user e mcpToken = None \<Longrightarrow>
   plaid_calls (snd (createPlaidLinkToken e mcpToken w)) = plaid_calls w"
  by (auto simp: createPlaidLinkToken_def authenticated_user_def split: sum.splits)

lemma link_unsubscribed:
  assumes "authenticated_user e mcpToken = Some uid" "\<not> subscription_ok e uid"
  shows "plaid_calls (snd (createPlaidLinkToken e mcpToken w)) = plaid_calls w"
proof -
  from assms(1) obtain hs s where h: "headers e = Inr hs"
    "getMcpSession e (auth_headers hs mcpToken) = Inr s" "session_user s = Some uid"
    by (rule authenticated_userD)
  show ?thesis
  proof (cases "hasActiveSubscription e uid")
    case (Inl err)
    then show ?thesis by (simp add: createPlaidLinkToken_def h)
  next
    case (Inr b)
    with assms(2) have "\<not> b" by (simp add: subscription_ok_def)
    with Inr show ?thesis by (simp add: createPlaidLinkToken_def h)
  qed
qed

lemma link_over_quota:
  assumes "authenticated_user e mcpToken = Some uid" "subscription_ok e uid" "\<not> quota_ok e uid w"
  shows "plaid_calls (snd (createPlaidLinkToken e mcpToken w)) = plaid_calls w"
proof -
  from assms(1) obtain hs s where h: "headers e = Inr hs"
    "getMcpSession e (auth_headers hs mcpToken) = Inr s" "session_user s = Some uid"
    by (rule authenticated_userD)
  from assms(2) have sub: "hasActiveSubscription e uid = Inr True"
    by (simp add: subscription_ok_def)
  from assms(3) show ?thesis
    by (simp add: createPlaidLinkToken_def h sub quota_ok_def Let_def
        split: sum.splits option.splits)
qed

lemma link_checks_passed:
  assumes "authenticated_user e mcpToken = Some uid" "subscription_ok e uid" "quota_ok e uid w"
  shows "createPlaidLinkToken e mcpToken w =
           (case createLinkToken e uid None w of
              (Inl err, w1) \<Rightarrow> createPlaidLinkToken_catch err w1
            | (Inr linkTokenData, w1) \<Rightarrow>
                (LinkSuccess (link_token linkTokenData) (expiration linkTokenData), w1))"
proof -
  from assms(1) obtain hs s where h: "headers e = Inr hs"
    "getMcpSession e (auth_headers hs mcpToken) = Inr s" "session_user s = Some uid"
    by (rule authenticated_userD)
  from assms(2) have sub: "hasActiveSubscription e uid = Inr True"
    by (simp add: subscription_ok_def)
  from assms(3) show ?thesis
    by (simp add: createPlaidLinkToken_def h sub quota_ok_def Let_def
        split: sum.splits option.splits)
qed

text \<open>
  Claim C2.  Whenever \<open>createPlaidLinkToken\<close> reaches the banking API, the authentication
  check, the subscription check and the quota check have all passed for the resolved user,
  and the one call made is the link-token request for that user.  When the session lookup
  answers without a user (an unauthenticated bearer), the action returns the authentication
  failure and leaves the world, the calls to the banking API included, as it was.
\<close>

theorem link_token_call_only_after_checks:
  "(plaid_calls (snd (createPlaidLinkToken e mcpToken w)) \<noteq> plaid_calls w \<longrightarrow>
      (\<exists>uid q. authenticated_user e mcpToken = Some uid \<and> subscription_ok e uid \<and> quota_ok e uid w
          \<and> plaid_calls (snd (createPlaidLinkToken e mcpToken w)) = plaid_calls w @ [LinkTokenCreate q]
          \<and> client_user_id q = uid))
   \<and> (headers e = Inr hs \<and> getMcpSession e (auth_headers hs mcpToken) = Inr s \<and> session_user s = None \<longrightarrow>
        createPlaidLinkToken e mcpToken w =
          (LinkFailure ''Authentication required. Please sign in first through ChatGPT.'', w))"
proof (intro conjI impI)
  assume "headers e = Inr hs \<and> getMcpSession e (auth_headers hs mcpToken) = Inr s \<and> session_user s = None"
  then show "createPlaidLinkToken e mcpToken w =
          (LinkFailure ''Authentication required. Please sign in first through ChatGPT.'', w)"
    by (simp add: createPlaidLinkToken_def)
next
  assume changed: "plaid_calls (snd (createPlaidLinkToken e mcpToken w)) \<noteq> plaid_calls w"
  then obtain uid where auth: "authenticated_user e mcpToken = Some uid"
    using link_unauthenticated[of e mcpToken w] by (cases "authenticated_user e mcpToken") auto
  from changed auth have sub: "subscription_ok e uid"
    using link_unsubscribed[of e mcpToken uid w] by blast
  from changed auth sub have quota: "quota_ok e uid w"
    using link_over_quota[of e mcpToken uid w] by blast
  have eq: "plaid_calls (snd (createPlaidLinkToken e mcpToken w))
            = plaid_calls (snd (createLinkToken e uid None w))"
    by (simp add: link_checks_passed[OF auth sub quota] split: prod.splits sum.splits)
  with changed createLinkToken_calls[of e uid None w]
  obtain q where "plaid_calls (snd (createPlaidLinkToken e mcpToken w)) = plaid_calls w @ [LinkTokenCreate q]"
    "client_user_id q = uid"
    by auto
  with auth sub quota
  show "\<exists>uid q. authenticated_user e mcpToken = Some uid \<and> subscription_ok e uid \<and> quota_ok e uid w
          \<and> plaid_calls (snd (createPlaidLinkToken e mcpToken w)) = plaid_calls w @ [LinkTokenCreate q]
          \<and> client_user_id q = uid"
    by blast
qed

theorem link_token_call_only_after_checks_witness:
  "plaid_calls (snd (createPlaidLinkToken demo_env (Some ''tok_u1'') (demo_world []))) \<noteq> plaid_calls (demo_world [])
   \<and> authenticated_user demo_env (Some ''tok_u1'') = Some ''u1''
   \<and> subscription_ok demo_env ''u1'' \<and> quota_ok demo_env ''u1'' (demo_world [])
   \<and> headers demo_env = Inr Map.empty
   \<and> getMcpSession demo_env (auth_headers Map.empty None) = Inr None
   \<and> session_user None = None
   \<and> createPlaidLinkToken demo_env None (demo_world []) =
       (LinkFailure ''Authentication required. Please sign in first through ChatGPT.'', demo_world [])"
  using link_token_call_only_after_checks[of demo_env "Some ''tok_u1''" "demo_world []" Map.empty None]
        link_token_call_only_after_checks[of demo_env None "demo_world []" Map.empty None]
  by (simp add: createPlaidLinkToken_def authenticated_user_def subscription_ok_def quota_ok_def
      demo_env_def demo_session_def demo_world_def auth_headers_def truthy_def session_user_def
      getUserPlaidItems_def plan_of_rows_def or_default_def maxAccounts_of_def planLimits_def
      limit_reached_def createLinkToken_def or_undefined_def truthy_opt_def Let_def)

subsection \<open>The quota check\<close>

lemma string_of_nat_digit: "n < 10 \<Longrightarrow> string_of_nat n = [digit_char n]"
  by (simp add: string_of_nat.simps)

lemma string_of_nat_3: "string_of_nat 3 = ''3''"
  by (simp add: string_of_nat_digit digit_char_def)

lemma string_of_nat_4: "string_of_nat 4 = ''4''"
  by (simp add: string_of_nat_digit digit_char_def)

lemma maxAccounts_basic: "maxAccounts_of ''basic'' = Limit 3"
  by (simp add: maxAccounts_of_def planLimits_def)

lemma link_quota_reached:
  assumes "authenticated_user e mcpToken = Some uid" "subscription_ok e uid"
    "getUserPlaidItems e uid True w = Inr existingItems" "pool_connect e = None"
    "query_subscription_plan e uid = Inr rows"
    "limit_reached (length existingItems) (maxAccounts_of (plan_of_rows rows))"
  shows "createPlaidLinkToken e mcpToken w =
           (LinkFailure (limit_message (maxAccounts_of (plan_of_rows rows))), w)"
proof -
  from assms(1) obtain hs s where h: "headers e = Inr hs"
    "getMcpSession e (auth_headers hs mcpToken) = Inr s" "session_user s = Some uid"
    by (rule authenticated_userD)
  from assms(2) have sub: "hasActiveSubscription e uid = Inr True"
    by (simp add: subscription_ok_def)
  show ?thesis
    by (simp add: createPlaidLinkToken_def h sub assms(3-6) Let_def)
qed


lemmas demo_simps =
  createPlaidLinkToken_def authenticated_user_def subscription_ok_def quota_ok_def
  demo_env_def demo_session_def demo_world_def demo_item_def auth_headers_def truthy_def
  session_user_def getUserPlaidItems_def plan_of_rows_def or_default_def maxAccounts_of_def
  planLimits_def limit_reached_def createLinkToken_def link_request_def or_undefined_def
  truthy_opt_def Let_def



subsection \<open>The limit message\<close>

lemma limit_message_contains_limit:
  "sublist (string_of_nat m) (limit_message (Limit m))"
  unfolding limit_message_def limit_text_def js_limit.case by (rule sublist_appendI)

text \<open>
  Claim C4, as amended.  When \<open>createPlaidLinkToken\<close> refuses a request because the number of
  active items has reached the plan's limit, the limit is a number and the message returned
  is the limit message for that number, which contains the limit in decimal.  The message is
  built from the limit alone (line 94).
\<close>

theorem quota_message_names_limit:
  assumes "authenticated_user e mcpToken = Some uid" "subscription_ok e uid"
    "getUserPlaidItems e uid True w = Inr existingItems" "pool_connect e = None"
    "query_subscription_plan e uid = Inr rows"
    "limit_reached (length existingItems) (maxAccounts_of (plan_of_rows rows))"
  shows "\<exists>m. maxAccounts_of (plan_of_rows rows) = Limit m
           \<and> fst (createPlaidLinkToken e mcpToken w) = LinkFailure (limit_message (Limit m))
           \<and> sublist (string_of_nat m) (limit_message (Limit m))"
proof -
  from assms(6) obtain m where m: "maxAccounts_of (plan_of_rows rows) = Limit m"
    by (cases "maxAccounts_of (plan_of_rows rows)") (simp_all add: limit_reached_def)
  from link_quota_reached[OF assms] m
  have "fst (createPlaidLinkToken e mcpToken w) = LinkFailure (limit_message (Limit m))"
    by simp
  with m limit_message_contains_limit[of m] show ?thesis by blast
qed

theorem quota_message_names_limit_witness:
  "authenticated_user demo_env (Some ''tok_u1'') = Some ''u1''
   \<and> subscription_ok demo_env ''u1''
   \<and> limit_reached (length (map demo_item [''item_1'', ''item_2'', ''item_3'', ''item_4''])) (Limit 3)
   \<and> fst (createPlaidLinkToken demo_env (Some ''tok_u1'')
            (demo_world [''item_1'', ''item_2'', ''item_3'', ''item_4'']))
       = LinkFailure (limit_message (Limit 3))
   \<and> sublist (string_of_nat 3) (limit_message (Limit 3))"
proof -
  let ?w = "demo_world [''item_1'', ''item_2'', ''item_3'', ''item_4'']"
  have auth: "authenticated_user demo_env (Some ''tok_u1'') = Some ''u1''"
    and sub: "subscription_ok demo_env ''u1''"
    and pool: "pool_connect demo_env = None"
    and rows: "query_subscription_plan demo_env ''u1'' = Inr [Some ''basic'']"
    and items: "getUserPlaidItems demo_env ''u1'' True ?w
        = Inr (map demo_item [''item_1'', ''item_2'', ''item_3'', ''item_4''])"
    by (simp_all add: demo_simps)
  have lim: "maxAccounts_of (plan_of_rows [Some ''basic'']) = Limit 3"
    by (simp add: plan_of_rows_def or_default_def truthy_def maxAccounts_basic)
  have reached: "limit_reached (length (map demo_item [''item_1'', ''item_2'', ''item_3'', ''item_4'']))
       (maxAccounts_of (plan_of_rows [Some ''basic'']))"
    by (simp add: lim limit_reached_def)
  from quota_message_names_limit[OF auth sub items pool rows reached] lim auth sub reached
  show ?thesis by auto
qed

text \<open>
  Claim C4 as stated fails: the message does not contain the current count.  A basic user
  with four active items is refused with the message for the limit 3, in which the digit 4
  does not occur.
\<close>

theorem quota_message_omits_count:
  "length (filter (\<lambda>r. user_id r = ''u1'' \<and> status r = ''active'')
      (plaid_items (demo_world [''item_1'', ''item_2'', ''item_3'', ''item_4'']))) = 4
   \<and> fst (createPlaidLinkToken demo_env (Some ''tok_u1'')
            (demo_world [''item_1'', ''item_2'', ''item_3'', ''item_4'']))
       = LinkFailure ''Account limit reached. Your plan allows 3 bank account(s). Please upgrade or remove an existing connection.''
   \<and> \<not> sublist (string_of_nat 4)
          ''Account limit reached. Your plan allows 3 bank account(s). Please upgrade or remove an existing connection.''"
proof -
  have a: "length (filter (\<lambda>r. user_id r = ''u1'' \<and> status r = ''active'')
      (plaid_items (demo_world [''item_1'', ''item_2'', ''item_3'', ''item_4'']))) = 4"
    by (simp add: demo_world_def demo_item_def)
  have b: "fst (createPlaidLinkToken demo_env (Some ''tok_u1'')
            (demo_world [''item_1'', ''item_2'', ''item_3'', ''item_4'']))
       = LinkFailure ''Account limit reached. Your plan allows 3 bank account(s). Please upgrade or remove an existing connection.''"
    by (simp add: demo_simps limit_message_def limit_text_def string_of_nat_3)
  have c: "\<not> sublist ''4''
          ''Account limit reached. Your plan allows 3 bank account(s). Please upgrade or remove an existing connection.''"
    by (simp add: sublist_Cons_right)
  from a b c show ?thesis by (simp only: string_of_nat_4 simp_thms)
qed

subsection \<open>Failures of the banking API\<close>

lemma exchange_unfold:
  assumes "authenticated_user e mcpToken = Some uid" "subscription_ok e uid" "truthy publicToken"
  shows "exchangePlaidPublicToken e publicToken metadata mcpToken w =
     (case exchangePublicToken e publicToken w of
        (Inl err, w1) \<Rightarrow> exchangePlaidPublicToken_catch err w1
      | (Inr (tok, item), w1) \<Rightarrow>
          (case savePlaidItem e uid item tok (metadata_institution_id metadata)
                  (metadata_institution_name metadata) w1 of
             (Inl err, w2) \<Rightarrow> exchangePlaidPublicToken_catch err w2
           | (Inr saved, w2) \<Rightarrow>
               (ExchangeSuccess item (metadata_institution_name metadata),
                notify_connection e uid (metadata_institution_name metadata) w2)))"
proof -
  from assms(1) obtain hs s where h: "headers e = Inr hs"
    "getMcpSession e (auth_headers hs mcpToken) = Inr s" "session_user s = Some uid"
    by (rule authenticated_userD)
  from assms(2) have sub: "hasActiveSubscription e uid = Inr True"
    by (simp add: subscription_ok_def)
  show ?thesis
    by (simp add: exchangePlaidPublicToken_def h sub assms(3) Let_def split: prod.splits sum.splits)
qed







subsection \<open>Persisting the exchanged credential\<close>


lemma savePlaidItem_saved:
  assumes "savePlaidItem e uid item tok instId instName w = (Inr saved, w2)"
  shows "plaid_items w2 = plaid_items w @ [saved]" "user_id saved = uid" "item_id saved = item"
    "status saved = ''active''" "plaid_calls w2 = plaid_calls w"
    "(uid, item) \<notin> set (map item_key (plaid_items w))"
  using assms
  by (auto simp: savePlaidItem_def insert_plaid_item_def item_key_def Let_def
      split: sum.splits if_splits)

lemma notify_connection_items [simp]:
  "plaid_items (notify_connection e uid instName w) = plaid_items w"
  by (simp add: notify_connection_def log_error_def split: sum.splits option.splits)

lemma notify_connection_calls [simp]:
  "plaid_calls (notify_connection e uid instName w) = plaid_calls w"
  by (simp add: notify_connection_def log_error_def split: sum.splits option.splits)

lemmas demo_exchange_simps =
  exchangePlaidPublicToken_def exchangePublicToken_def exchangePlaidPublicToken_catch_def
  error_message_or_def log_error_def demo_exchange_def savePlaidItem_def insert_plaid_item_def
  item_key_def metadata_institution_id_def metadata_institution_name_def demo_metadata_def
  notify_connection_def send_connection_email_def




subsection \<open>The notification and the missing quota check of the exchange\<close>

lemma exchangePublicToken_items [simp]:
  "plaid_items (snd (exchangePublicToken e publicToken w)) = plaid_items w"
  by (simp add: exchangePublicToken_def log_error_def Let_def split: option.splits sum.splits)

lemma createLinkToken_items [simp]:
  "plaid_items (snd (createLinkToken e uid r w)) = plaid_items w"
  by (simp add: createLinkToken_def log_error_def Let_def split: option.splits sum.splits)

text \<open>
  Claim C7.  Once the exchange and the insertion of the row have succeeded,
  \<open>exchangePlaidPublicToken\<close> returns success with the item id, and the table is the table
  before the call with the new row appended, whatever the notification block does; when
  sending the confirmation fails, the failure is logged and nothing else changes.
\<close>

theorem email_failure_keeps_success:
  assumes "authenticated_user e mcpToken = Some uid" "subscription_ok e uid" "truthy publicToken"
    "exchangePublicToken e publicToken w = (Inr (tok, item), w1)"
    "savePlaidItem e uid item tok (metadata_institution_id metadata)
       (metadata_institution_name metadata) w1 = (Inr saved, w2)"
  shows "fst (exchangePlaidPublicToken e publicToken metadata mcpToken w)
           = ExchangeSuccess item (metadata_institution_name metadata)
       \<and> plaid_items (snd (exchangePlaidPublicToken e publicToken metadata mcpToken w))
           = plaid_items w @ [saved]
       \<and> (send_connection_email e uid (metadata_institution_name metadata) w2 = Inl err \<longrightarrow>
            snd (exchangePlaidPublicToken e publicToken metadata mcpToken w)
              = log_error ''[Server Action] Failed to send bank connection email:'' err w2)"
proof -
  have run: "exchangePlaidPublicToken e publicToken metadata mcpToken w =
      (ExchangeSuccess item (metadata_institution_name metadata),
       notify_connection e uid (metadata_institution_name metadata) w2)"
    using exchange_unfold[OF assms(1-3), of metadata w] assms(4,5) by simp
  have "plaid_items w1 = plaid_items w"
    using exchangePublicToken_items[of e publicToken w] assms(4) by simp
  with savePlaidItem_saved(1)[OF assms(5)]
  have items: "plaid_items w2 = plaid_items w @ [saved]"
    by simp
  have mail: "snd (exchangePlaidPublicToken e publicToken metadata mcpToken w)
      = log_error ''[Server Action] Failed to send bank connection email:'' err w2"
    if "send_connection_email e uid (metadata_institution_name metadata) w2 = Inl err"
    using that by (simp add: run notify_connection_def)
  from mail show ?thesis
    by (simp add: run items)
qed

theorem email_failure_keeps_success_witness:
  "authenticated_user demo_env_mail_down (Some ''tok_u1'') = Some ''u1''
   \<and> subscription_ok demo_env_mail_down ''u1'' \<and> truthy ''public-4''
   \<and> send_connection_email demo_env_mail_down ''u1'' (Some ''Fourth Bank'')
        \<lparr>plaid_items = [demo_item ''item_1'',
            \<lparr>user_id = ''u1'', item_id = ''item_4'', access_token = None,
              access_token_encrypted = Some ''gcm:4-ssecca'', institution_id = Some ''ins_4'',
              institution_name = Some ''Fourth Bank'', status = ''active'', error_code = None\<rparr>],
          plaid_calls = [ItemPublicTokenExchange ''public-4''],
          emails_sent = [], console_errors = []\<rparr>
        = Inl (JsError ''SMTP connection refused'')
   \<and> fst (exchangePlaidPublicToken demo_env_mail_down ''public-4'' demo_metadata (Some ''tok_u1'')
            (demo_world [''item_1''])) = ExchangeSuccess ''item_4'' (Some ''Fourth Bank'')
   \<and> plaid_items (snd (exchangePlaidPublicToken demo_env_mail_down ''public-4'' demo_metadata
            (Some ''tok_u1'') (demo_world [''item_1''])))
       = [demo_item ''item_1'',
            \<lparr>user_id = ''u1'', item_id = ''item_4'', access_token = None,
              access_token_encrypted = Some ''gcm:4-ssecca'', institution_id = Some ''ins_4'',
              institution_name = Some ''Fourth Bank'', status = ''active'', error_code = None\<rparr>]
   \<and> emails_sent (snd (exchangePlaidPublicToken demo_env_mail_down ''public-4'' demo_metadata
            (Some ''tok_u1'') (demo_world [''item_1'']))) = []
   \<and> console_errors (snd (exchangePlaidPublicToken demo_env_mail_down ''public-4'' demo_metadata
            (Some ''tok_u1'') (demo_world [''item_1''])))
       = [(''[Server Action] Failed to send bank connection email:'', JsError ''SMTP connection refused'')]"
proof -
  let ?e = demo_env_mail_down
  let ?w = "demo_world [''item_1'']"
  let ?w1 = "?w\<lparr>plaid_calls := [ItemPublicTokenExchange ''public-4'']\<rparr>"
  let ?row = "\<lparr>user_id = ''u1'', item_id = ''item_4'', access_token = None,
              access_token_encrypted = Some ''gcm:4-ssecca'', institution_id = Some ''ins_4'',
              institution_name = Some ''Fourth Bank'', status = ''active'', error_code = None\<rparr>"
  let ?w2 = "\<lparr>plaid_items = [demo_item ''item_1'', ?row],
          plaid_calls = [ItemPublicTokenExchange ''public-4''],
          emails_sent = [], console_errors = []\<rparr>"
  have auth: "authenticated_user ?e (Some ''tok_u1'') = Some ''u1''"
    and sub: "subscription_ok ?e ''u1''"
    and tok: "truthy ''public-4''"
    by (simp_all add: demo_simps demo_env_mail_down_def)
  have exch: "exchangePublicToken ?e ''public-4'' ?w = (Inr (''access-4'', ''item_4''), ?w1)"
    by (simp add: exchangePublicToken_def demo_env_mail_down_def demo_env_def demo_exchange_def
        demo_world_def)
  have md: "metadata_institution_id demo_metadata = Some ''ins_4''"
    "metadata_institution_name demo_metadata = Some ''Fourth Bank''"
    by (simp_all add: metadata_institution_id_def metadata_institution_name_def demo_metadata_def
        or_undefined_def truthy_opt_def truthy_def)
  have save: "savePlaidItem ?e ''u1'' ''item_4'' ''access-4'' (metadata_institution_id demo_metadata)
       (metadata_institution_name demo_metadata) ?w1 = (Inr ?row, ?w2)"
    by (simp add: md savePlaidItem_def insert_plaid_item_def item_key_def demo_env_mail_down_def
        demo_env_def demo_world_def demo_item_def Let_def)
  have mail: "send_connection_email ?e ''u1'' (Some ''Fourth Bank'') ?w2
      = Inl (JsError ''SMTP connection refused'')"
    by (simp add: send_connection_email_def demo_env_mail_down_def demo_env_def demo_item_def
        truthy_def or_default_def Let_def)
  from email_failure_keeps_success[OF auth sub tok exch save, of "JsError ''SMTP connection refused''"] mail md
  have "fst (exchangePlaidPublicToken ?e ''public-4'' demo_metadata (Some ''tok_u1'') ?w)
           = ExchangeSuccess ''item_4'' (Some ''Fourth Bank'')"
    and "snd (exchangePlaidPublicToken ?e ''public-4'' demo_metadata (Some ''tok_u1'') ?w)
           = log_error ''[Server Action] Failed to send bank connection email:''
               (JsError ''SMTP connection refused'') ?w2"
    by simp_all
  with auth sub tok mail show ?thesis
    by (simp add: log_error_def)
qed


subsection \<open>The exchange action that takes the user id\<close>

lemma by_id_empty_user:
  "\<not> truthy uid \<Longrightarrow>
   exchangePlaidPublicToken_by_id e uid publicToken inst w = (ExchangeByIdFailure ''User ID is required'', w)"
  by (simp add: exchangePlaidPublicToken_by_id_def)

lemma exchangePublicToken_checks_irrelevant:
  "exchangePublicToken
     (e\<lparr>headers := h, getMcpSession := g, hasActiveSubscription := s, item_query_error := q,
        pool_connect := p, query_subscription_plan := pl\<rparr>)
   = exchangePublicToken e"
  by (intro ext) (simp add: exchangePublicToken_def Let_def split: option.splits sum.splits)

lemma savePlaidItem_checks_irrelevant:
  "savePlaidItem
     (e\<lparr>headers := h, getMcpSession := g, hasActiveSubscription := s, item_query_error := q,
        pool_connect := p, query_subscription_plan := pl\<rparr>)
   = savePlaidItem e"
  by (intro ext) (simp add: savePlaidItem_def Let_def split: option.splits sum.splits)

lemma by_id_checks_irrelevant:
  "exchangePlaidPublicToken_by_id
     (e\<lparr>headers := h, getMcpSession := g, hasActiveSubscription := s, item_query_error := q,
        pool_connect := p, query_subscription_plan := pl\<rparr>) uid publicToken inst w
   = exchangePlaidPublicToken_by_id e uid publicToken inst w"
  unfolding exchangePlaidPublicToken_by_id_def exchangePublicToken_checks_irrelevant
    savePlaidItem_checks_irrelevant ..

lemma by_id_calls_provider:
  assumes "truthy uid" "getPlaidClient e = None"
  shows "plaid_calls (snd (exchangePlaidPublicToken_by_id e uid publicToken inst w))
         = plaid_calls w @ [ItemPublicTokenExchange publicToken]"
  using assms
  by (simp add: exchangePlaidPublicToken_by_id_def exchangePublicToken_def savePlaidItem_def
      log_error_def Let_def split: sum.splits option.splits prod.splits)

lemma by_id_saves:
  assumes "truthy uid" "getPlaidClient e = None" "itemPublicTokenExchange e publicToken = Inr (tok, item)"
    "encrypt e tok = Inr c" "(uid, item) \<notin> set (map item_key (plaid_items w))"
  shows "fst (exchangePlaidPublicToken_by_id e uid publicToken inst w) = ExchangeByIdSuccess"
    "plaid_items (snd (exchangePlaidPublicToken_by_id e uid publicToken inst w))
       = plaid_items w @ [\<lparr>user_id = uid, item_id = item, access_token = None,
            access_token_encrypted = Some c, institution_id = inst_id inst,
            institution_name = inst_name inst, status = ''active'', error_code = None\<rparr>]"
  using assms
  by (simp_all add: exchangePlaidPublicToken_by_id_def exchangePublicToken_def savePlaidItem_def
      insert_plaid_item_def item_key_def Let_def)

lemma by_id_failure_logs:
  assumes "truthy uid" "fst (exchangePlaidPublicToken_by_id e uid publicToken inst w) \<noteq> ExchangeByIdSuccess"
  shows "length (console_errors (snd (exchangePlaidPublicToken_by_id e uid publicToken inst w)))
         > length (console_errors w)"
  using assms
  by (auto simp: exchangePlaidPublicToken_by_id_def exchangePublicToken_def savePlaidItem_def
      log_error_def Let_def split: sum.splits option.splits prod.splits if_splits)

text \<open>
  Claim C9.  The action of part\_003 that takes the user id asks nobody: its result and its
  effects are the same whatever the request headers, the session lookup, the subscription
  helper and the reads behind the quota check would answer.  With an empty user id it returns
  \<open>User ID is required\<close> and changes nothing.  With a non-empty one it goes to the provider's
  exchange, and when that answers and the row is new it inserts the row for that user and
  succeeds.  A failure that leaves the world as it was occurs only for the empty user id.
\<close>

theorem exchange_by_id_unchecked:
  "exchangePlaidPublicToken_by_id
     (e\<lparr>headers := h, getMcpSession := g, hasActiveSubscription := s, item_query_error := q,
        pool_connect := p, query_subscription_plan := pl\<rparr>) uid publicToken inst w
     = exchangePlaidPublicToken_by_id e uid publicToken inst w
   \<and> (\<not> truthy uid \<longrightarrow>
        exchangePlaidPublicToken_by_id e uid publicToken inst w
          = (ExchangeByIdFailure ''User ID is required'', w))
   \<and> (truthy uid \<and> getPlaidClient e = None \<longrightarrow>
        plaid_calls (snd (exchangePlaidPublicToken_by_id e uid publicToken inst w))
          = plaid_calls w @ [ItemPublicTokenExchange publicToken])
   \<and> (truthy uid \<and> getPlaidClient e = None \<and> itemPublicTokenExchange e publicToken = Inr (tok, item)
        \<and> encrypt e tok = Inr c \<and> (uid, item) \<notin> set (map item_key (plaid_items w)) \<longrightarrow>
        fst (exchangePlaidPublicToken_by_id e uid publicToken inst w) = ExchangeByIdSuccess
        \<and> plaid_items (snd (exchangePlaidPublicToken_by_id e uid publicToken inst w))
            = plaid_items w @ [\<lparr>user_id = uid, item_id = item, access_token = None,
                 access_token_encrypted = Some c, institution_id = inst_id inst,
                 institution_name = inst_name inst, status = ''active'', error_code = None\<rparr>])
   \<and> (fst (exchangePlaidPublicToken_by_id e uid publicToken inst w) \<noteq> ExchangeByIdSuccess
        \<and> snd (exchangePlaidPublicToken_by_id e uid publicToken inst w) = w \<longrightarrow> \<not> truthy uid)"
proof (intro conjI impI)
  show "exchangePlaidPublicToken_by_id
     (e\<lparr>headers := h, getMcpSession := g, hasActiveSubscription := s, item_query_error := q,
        pool_connect := p, query_subscription_plan := pl\<rparr>) uid publicToken inst w
     = exchangePlaidPublicToken_by_id e uid publicToken inst w"
    by (rule by_id_checks_irrelevant)
next
  assume "\<not> truthy uid"
  then show "exchangePlaidPublicToken_by_id e uid publicToken inst w
          = (ExchangeByIdFailure ''User ID is required'', w)"
    by (rule by_id_empty_user)
next
  assume "truthy uid \<and> getPlaidClient e = None"
  then show "plaid_calls (snd (exchangePlaidPublicToken_by_id e uid publicToken inst w))
          = plaid_calls w @ [ItemPublicTokenExchange publicToken]"
    by (simp add: by_id_calls_provider)
next
  assume a: "truthy uid \<and> getPlaidClient e = None \<and> itemPublicTokenExchange e publicToken = Inr (tok, item)
        \<and> encrypt e tok = Inr c \<and> (uid, item) \<notin> set (map item_key (plaid_items w))"
  then show "fst (exchangePlaidPublicToken_by_id e uid publicToken inst w) = ExchangeByIdSuccess"
    by (simp add: by_id_saves(1))
  from a show "plaid_items (snd (exchangePlaidPublicToken_by_id e uid publicToken inst w))
            = plaid_items w @ [\<lparr>user_id = uid, item_id = item, access_token = None,
                 access_token_encrypted = Some c, institution_id = inst_id inst,
                 institution_name = inst_name inst, status = ''active'', error_code = None\<rparr>]"
    by (simp add: by_id_saves(2))
next
  assume a: "fst (exchangePlaidPublicToken_by_id e uid publicToken inst w) \<noteq> ExchangeByIdSuccess
        \<and> snd (exchangePlaidPublicToken_by_id e uid publicToken inst w) = w"
  show "\<not> truthy uid"
  proof
    assume "truthy uid"
    from by_id_failure_logs[OF this, of e publicToken inst w] a show False by simp
  qed
qed

theorem exchange_by_id_unchecked_witness:
  "authenticated_user demo_env_signed_out (Some ''tok_u1'') = None
   \<and> \<not> subscription_ok demo_env_signed_out ''u1''
   \<and> limit_reached (length (filter (\<lambda>r. user_id r = ''u1'' \<and> status r = ''active'')
        (plaid_items (demo_world [''item_1'', ''item_2'', ''item_3''])))) (Limit 3)
   \<and> truthy ''u1''
   \<and> fst (exchangePlaidPublicToken_by_id demo_env_signed_out ''u1'' ''public-4'' demo_institution
            (demo_world [''item_1'', ''item_2'', ''item_3''])) = ExchangeByIdSuccess
   \<and> plaid_calls (snd (exchangePlaidPublicToken_by_id demo_env_signed_out ''u1'' ''public-4''
            demo_institution (demo_world [''item_1'', ''item_2'', ''item_3''])))
       = [ItemPublicTokenExchange ''public-4'']
   \<and> map item_key (plaid_items (snd (exchangePlaidPublicToken_by_id demo_env_signed_out ''u1''
            ''public-4'' demo_institution (demo_world [''item_1'', ''item_2'', ''item_3'']))))
       = [(''u1'', ''item_1''), (''u1'', ''item_2''), (''u1'', ''item_3''), (''u1'', ''item_4'')]
   \<and> \<not> truthy []
   \<and> exchangePlaidPublicToken_by_id demo_env_signed_out [] ''public-4'' demo_institution
        (demo_world [''item_1'', ''item_2'', ''item_3''])
       = (ExchangeByIdFailure ''User ID is required'', demo_world [''item_1'', ''item_2'', ''item_3''])"
proof -
  let ?e = demo_env_signed_out
  let ?w = "demo_world [''item_1'', ''item_2'', ''item_3'']"
  have out: "authenticated_user ?e (Some ''tok_u1'') = None" "\<not> subscription_ok ?e ''u1''"
    by (simp_all add: demo_simps demo_env_signed_out_def)
  have full: "limit_reached (length (filter (\<lambda>r. user_id r = ''u1'' \<and> status r = ''active'')
        (plaid_items ?w))) (Limit 3)"
    by (simp add: demo_world_def demo_item_def limit_reached_def)
  have uid: "truthy ''u1''" "\<not> truthy []"
    by (simp_all add: truthy_def)
  have client: "getPlaidClient ?e = None"
    and exch: "itemPublicTokenExchange ?e ''public-4'' = Inr (''access-4'', ''item_4'')"
    and enc: "encrypt ?e ''access-4'' = Inr ''gcm:4-ssecca''"
    and fresh: "(''u1'', ''item_4'') \<notin> set (map item_key (plaid_items ?w))"
    by (simp_all add: demo_env_signed_out_def demo_env_def demo_exchange_def demo_world_def
        demo_item_def item_key_def)
  note one = exchange_by_id_unchecked[where e = ?e and uid = "''u1''" and publicToken = "''public-4''"
      and inst = demo_institution and w = ?w and tok = "''access-4''" and item = "''item_4''"
      and c = "''gcm:4-ssecca''"]
  note two = exchange_by_id_unchecked[where e = ?e and uid = "[]" and publicToken = "''public-4''"
      and inst = demo_institution and w = ?w]
  from one uid client exch enc fresh
  have ok: "fst (exchangePlaidPublicToken_by_id ?e ''u1'' ''public-4'' demo_institution ?w)
        = ExchangeByIdSuccess"
    and calls: "plaid_calls (snd (exchangePlaidPublicToken_by_id ?e ''u1'' ''public-4'' demo_institution ?w))
        = plaid_calls ?w @ [ItemPublicTokenExchange ''public-4'']"
    and items: "plaid_items (snd (exchangePlaidPublicToken_by_id ?e ''u1'' ''public-4'' demo_institution ?w))
        = plaid_items ?w @ [\<lparr>user_id = ''u1'', item_id = ''item_4'', access_token = None,
                 access_token_encrypted = Some ''gcm:4-ssecca'', institution_id = inst_id demo_institution,
                 institution_name = inst_name demo_institution, status = ''active'', error_code = None\<rparr>]"
    by simp_all
  from two uid
  have empty: "exchangePlaidPublicToken_by_id ?e [] ''public-4'' demo_institution ?w
       = (ExchangeByIdFailure ''User ID is required'', ?w)"
    by simp
  have pc: "plaid_calls ?w = []"
    by (simp add: demo_world_def)
  have calls': "plaid_calls (snd (exchangePlaidPublicToken_by_id ?e ''u1'' ''public-4'' demo_institution ?w))
        = [ItemPublicTokenExchange ''public-4'']"
    using calls by (simp only: pc append_Nil)
  have pk: "map item_key (plaid_items ?w) = [(''u1'', ''item_1''), (''u1'', ''item_2''), (''u1'', ''item_3'')]"
    by (simp add: demo_world_def demo_item_def item_key_def)
  have k4: "item_key \<lparr>user_id = ''u1'', item_id = ''item_4'', access_token = None,
                 access_token_encrypted = Some ''gcm:4-ssecca'', institution_id = inst_id demo_institution,
                 institution_name = inst_name demo_institution, status = ''active'', error_code = None\<rparr>
        = (''u1'', ''item_4'')"
    by (simp add: item_key_def)
  have keys: "map item_key (plaid_items (snd (exchangePlaidPublicToken_by_id ?e ''u1'' ''public-4''
        demo_institution ?w)))
        = [(''u1'', ''item_1''), (''u1'', ''item_2''), (''u1'', ''item_3''), (''u1'', ''item_4'')]"
    by (simp only: items map_append pk k4 list.map append.simps)
  from out full uid ok calls' keys empty show ?thesis
    by blast
qed

subsection \<open>Uniqueness of the pair of user and item\<close>

lemma log_error_items [simp]: "plaid_items (log_error label err w) = plaid_items w"
  by (simp add: log_error_def)

lemma createLinkToken_itemsD:
  "createLinkToken e uid r w = (x, w1) \<Longrightarrow> plaid_items w1 = plaid_items w"
  using createLinkToken_items[of e uid r w] by simp

lemma exchangePublicToken_itemsD:
  "exchangePublicToken e publicToken w = (x, w1) \<Longrightarrow> plaid_items w1 = plaid_items w"
  using exchangePublicToken_items[of e publicToken w] by simp

lemma createPlaidLinkToken_items:
  "plaid_items (snd (createPlaidLinkToken e mcpToken w)) = plaid_items w"
  by (auto simp: createPlaidLinkToken_def createPlaidLinkToken_catch_def Let_def
      dest: createLinkToken_itemsD split: sum.splits option.splits prod.splits)

lemma createPlaidLinkToken_by_id_items:
  "plaid_items (snd (createPlaidLinkToken_by_id e uid w)) = plaid_items w"
  by (auto simp: createPlaidLinkToken_by_id_def dest: createLinkToken_itemsD
      split: sum.splits prod.splits)

lemma savePlaidItem_unique:
  assumes "unique_items (plaid_items w)"
  shows "unique_items (plaid_items (snd (savePlaidItem e uid item tok instId instName w)))"
  using assms
  by (auto simp: savePlaidItem_def insert_plaid_item_def unique_items_def Let_def
      split: sum.splits)

lemma savePlaidItem_uniqueD:
  "savePlaidItem e uid item tok instId instName w = (x, w2) \<Longrightarrow> unique_items (plaid_items w)
   \<Longrightarrow> unique_items (plaid_items w2)"
  using savePlaidItem_unique[of w e uid item tok instId instName] by simp

lemma exchangePlaidPublicToken_unique:
  assumes "unique_items (plaid_items w)"
  shows "unique_items (plaid_items (snd (exchangePlaidPublicToken e publicToken metadata mcpToken w)))"
  using assms
  by (auto simp: exchangePlaidPublicToken_def exchangePlaidPublicToken_catch_def Let_def
      dest!: exchangePublicToken_itemsD dest: savePlaidItem_uniqueD
      split: sum.splits option.splits prod.splits)

lemma exchangePlaidPublicToken_by_id_unique:
  assumes "unique_items (plaid_items w)"
  shows "unique_items (plaid_items (snd (exchangePlaidPublicToken_by_id e uid publicToken inst w)))"
  using assms
  by (auto simp: exchangePlaidPublicToken_by_id_def
      dest!: exchangePublicToken_itemsD dest: savePlaidItem_uniqueD
      split: sum.splits prod.splits)

lemma reachable_unique: "reachable w \<Longrightarrow> unique_items (plaid_items w)"
proof (induction rule: reachable.induct)
  case (reachable_init w)
  then show ?case .
next
  case (reachable_link w e mcpToken)
  then show ?case by (simp add: createPlaidLinkToken_items)
next
  case (reachable_exchange w e publicToken metadata mcpToken)
  then show ?case by (simp add: exchangePlaidPublicToken_unique)
next
  case (reachable_link_by_id w e uid)
  then show ?case by (simp add: createPlaidLinkToken_by_id_items)
next
  case (reachable_exchange_by_id w e uid publicToken inst)
  then show ?case by (simp add: exchangePlaidPublicToken_by_id_unique)
qed

lemma distinct_keys_at_most_one:
  "distinct (map f xs) \<Longrightarrow> length (filter (\<lambda>x. f x = k) xs) \<le> 1"
proof (induction xs)
  case Nil
  then show ?case by simp
next
  case (Cons x xs)
  show ?case
  proof (cases "f x = k")
    case True
    with Cons.prems have "k \<notin> f ` set xs" by auto
    then have "filter (\<lambda>x. f x = k) xs = []"
      by (auto simp: filter_empty_conv)
    with True show ?thesis by simp
  next
    case False
    with Cons show ?thesis by simp
  qed
qed

text \<open>
  Claim C1.  In every world the actions lead to, for every user \<open>U\<close> and external item id \<open>I\<close>
  at most one row of the table has that pair.  The actions that insert are the two exchange
  actions, through \<open>savePlaidItem\<close> and the table's uniqueness constraint.
\<close>

theorem item_pair_unique:
  assumes "reachable w"
  shows "length (filter (\<lambda>r. user_id r = U \<and> item_id r = I) (plaid_items w)) \<le> 1"
proof -
  from assms have "distinct (map item_key (plaid_items w))"
    using reachable_unique by (simp add: unique_items_def)
  from distinct_keys_at_most_one[OF this, of "(U, I)"]
  show ?thesis by (simp add: item_key_def)
qed

theorem item_pair_unique_witness:
  "reachable (demo_world [])
   \<and> reachable (snd (exchangePlaidPublicToken demo_env ''public-1'' demo_metadata (Some ''tok_u1'')
        (demo_world [])))
   \<and> reachable (snd (exchangePlaidPublicToken demo_env ''public-1'' demo_metadata (Some ''tok_u1'')
        (snd (exchangePlaidPublicToken demo_env ''public-1'' demo_metadata (Some ''tok_u1'')
          (demo_world [])))))
   \<and> map item_key (plaid_items (snd (exchangePlaidPublicToken demo_env ''public-1'' demo_metadata
        (Some ''tok_u1'') (snd (exchangePlaidPublicToken demo_env ''public-1'' demo_metadata
          (Some ''tok_u1'') (demo_world []))))))
       = [(''u1'', ''item_1'')]
   \<and> length (filter (\<lambda>r. user_id r = ''u1'' \<and> item_id r = ''item_1'')
        (plaid_items (snd (exchangePlaidPublicToken demo_env ''public-1'' demo_metadata
          (Some ''tok_u1'') (snd (exchangePlaidPublicToken demo_env ''public-1'' demo_metadata
            (Some ''tok_u1'') (demo_world []))))))) \<le> 1"
proof -
  let ?w0 = "demo_world []"
  let ?w1 = "snd (exchangePlaidPublicToken demo_env ''public-1'' demo_metadata (Some ''tok_u1'') ?w0)"
  let ?w2 = "snd (exchangePlaidPublicToken demo_env ''public-1'' demo_metadata (Some ''tok_u1'') ?w1)"
  have r0: "reachable ?w0"
    by (rule reachable_init) (simp add: demo_world_def unique_items_def)
  have r1: "reachable ?w1"
    using r0 by (rule reachable_exchange)
  have r2: "reachable ?w2"
    using r1 by (rule reachable_exchange)
  have keys: "map item_key (plaid_items ?w2) = [(''u1'', ''item_1'')]"
    by (simp add: demo_simps demo_exchange_simps)
  from r0 r1 r2 keys item_pair_unique[OF r2, of "''u1''" "''item_1''"] show ?thesis
    by blast
qed

subsection \<open>The session cache\<close>

lemma cleanup_loop_map_of:
  "map_of (snd (cleanup_loop now maxAge entries ss n)) k =
     (if \<exists>session. (k, session) \<in> set entries \<and> now - lastAccessedAt session > maxAge
      then None else map_of ss k)"
proof (induction entries arbitrary: ss n)
  case Nil
  then show ?case by simp
next
  case (Cons entry entries)
  obtain sid session where entry: "entry = (sid, session)" by (cases entry)
  show ?case
  proof (cases "now - lastAccessedAt session > maxAge")
    case True
    then show ?thesis
      using Cons.IH[of "AList.delete sid ss" "n + 1"]
      by (auto simp: entry Let_def AList.delete_conv')
  next
    case False
    then show ?thesis
      using Cons.IH[of ss n] by (auto simp: entry Let_def)
  qed
qed

lemma cleanup_loop_distinct:
  "distinct (map fst ss) \<Longrightarrow> distinct (map fst (snd (cleanup_loop now maxAge entries ss n)))"
proof (induction entries arbitrary: ss n)
  case Nil
  then show ?case by simp
next
  case (Cons entry entries)
  obtain sid session where entry: "entry = (sid, session)" by (cases entry)
  from Cons.prems have "distinct (map fst (AList.delete sid ss))"
    by (rule AList.distinct_delete)
  with Cons show ?case
    by (simp add: entry Let_def)
qed

lemma cleanup_map_of:
  assumes "distinct (map fst ss)"
  shows "map_of (snd (cleanupOldSessions now d ss)) k =
     (case map_of ss k of
        None \<Rightarrow> None
      | Some session \<Rightarrow> if now - lastAccessedAt session > max_age_ms d then None else Some session)"
proof (cases "map_of ss k")
  case None
  then have "\<And>session. (k, session) \<notin> set ss"
    by (metis map_of_SomeD map_of_eq_None_iff image_eqI fst_conv)
  with None show ?thesis
    by (simp add: cleanupOldSessions_def cleanup_loop_map_of)
next
  case (Some session)
  with assms have "\<And>s'. (k, s') \<in> set ss \<longleftrightarrow> s' = session"
    by (metis map_of_is_SomeI map_of_SomeD option.inject)
  with Some show ?thesis
    by (simp add: cleanupOldSessions_def cleanup_loop_map_of)
qed

lemma exec_op_distinct: "distinct (map fst ss) \<Longrightarrow> distinct (map fst (exec_op op ss))"
  by (cases op)
    (auto simp: createSession_def getAccessToken_def deleteSession_def cleanupOldSessions_def
      Let_def AList.distinct_update AList.distinct_delete cleanup_loop_distinct split: option.splits)

lemma run_ops_distinct: "distinct (map fst ss) \<Longrightarrow> distinct (map fst (run_ops ops ss))"
  by (induction ops arbitrary: ss) (simp_all add: exec_op_distinct)

lemma exec_op_holds:
  assumes "holds_token sid token ss" "\<not> removes sid op ss"
  shows "holds_token sid token (exec_op op ss)"
proof -
  from assms(1) have d: "distinct (map fst ss)"
    by (simp add: holds_token_def)
  from assms(1) obtain session where s: "map_of ss sid = Some session" "accessToken session = token"
    by (auto simp: holds_token_def split: option.splits)
  have d': "distinct (map fst (exec_op op ss))"
    using d by (rule exec_op_distinct)
  have "case map_of (exec_op op ss) sid of None \<Rightarrow> False | Some session \<Rightarrow> accessToken session = token"
  proof (cases op)
    case (CreateSession random_hex now t i)
    with assms(2) s show ?thesis
      by (simp add: createSession_def Let_def AList.update_conv')
  next
    case (GetAccessToken now k)
    with s show ?thesis
      by (cases "k = sid")
        (auto simp: getAccessToken_def AList.update_conv' split: option.splits)
  next
    case (IsValidSession k)
    with s show ?thesis by simp
  next
    case (GetSessionInfo k)
    with s show ?thesis by simp
  next
    case (DeleteSession k)
    with assms(2) s show ?thesis
      by (simp add: deleteSession_def AList.delete_conv')
  next
    case (CleanupOldSessions now maxAgeInDays)
    with assms(2) s show ?thesis
      by (simp add: cleanup_map_of[OF d])
  qed
  with d' show ?thesis by (simp add: holds_token_def)
qed

lemma run_ops_holds:
  "holds_token sid token ss \<Longrightarrow> kept_by sid ops ss \<Longrightarrow> holds_token sid token (run_ops ops ss)"
proof (induction ops arbitrary: ss)
  case Nil
  then show ?case by simp
next
  case (Cons op ops)
  from Cons.prems have "holds_token sid token (exec_op op ss)" "kept_by sid ops (exec_op op ss)"
    by (simp_all add: exec_op_holds)
  then show ?case by (simp add: Cons.IH)
qed

text \<open>
  Claim C10.  Let \<open>sid\<close> be the identifier that \<open>createSession\<close> returns for the token, in a
  cache with any history.  After any further calls none of which removes \<open>sid\<close> (a deletion
  of \<open>sid\<close>, a sweep for which the session is too old, or a creation that draws the same
  identifier again), \<open>getAccessToken\<close> returns the token and \<open>isValidSession\<close> holds.  After
  \<open>deleteSession\<close>, and after a sweep for which the session is too old, \<open>getAccessToken\<close>
  returns nothing and \<open>isValidSession\<close> fails.
\<close>

theorem session_cache_faithful:
  assumes "createSession random_hex now token item (run_ops before []) = (sid, ss1)"
    and "kept_by sid ops ss1"
  shows "sid = random_hex
       \<and> fst (getAccessToken t1 sid (run_ops ops ss1)) = Some token
       \<and> isValidSession sid (run_ops ops ss1)
       \<and> fst (getAccessToken t1 sid (snd (deleteSession sid (run_ops ops ss1)))) = None
       \<and> \<not> isValidSession sid (snd (deleteSession sid (run_ops ops ss1)))
       \<and> (removes sid (CleanupOldSessions t1 maxAgeInDays) (run_ops ops ss1) \<longrightarrow>
            fst (getAccessToken t2 sid (snd (cleanupOldSessions t1 maxAgeInDays (run_ops ops ss1)))) = None
            \<and> \<not> isValidSession sid (snd (cleanupOldSessions t1 maxAgeInDays (run_ops ops ss1))))"
proof -
  let ?ss2 = "run_ops ops ss1"
  have d0: "distinct (map fst (run_ops before []))"
    by (rule run_ops_distinct) simp
  from assms(1) have sid: "sid = random_hex"
    and ss1: "ss1 = AList.update random_hex
        \<lparr>sessionId = random_hex, accessToken = token, itemId = item, createdAt = now,
          lastAccessedAt = now\<rparr> (run_ops before [])"
    by (auto simp: createSession_def Let_def)
  have "holds_token sid token ss1"
    using d0 by (simp add: holds_token_def sid ss1 AList.distinct_update AList.update_conv')
  from run_ops_holds[OF this assms(2)] have h: "holds_token sid token ?ss2" .
  then have d: "distinct (map fst ?ss2)"
    by (simp add: holds_token_def)
  from h obtain session where s: "map_of ?ss2 sid = Some session" "accessToken session = token"
    by (auto simp: holds_token_def split: option.splits)
  have get: "fst (getAccessToken t1 sid ?ss2) = Some token"
    by (simp add: getAccessToken_def s)
  have valid: "isValidSession sid ?ss2"
    by (simp add: isValidSession_def s)
  have gone: "map_of (snd (deleteSession sid ?ss2)) sid = None"
    by (simp add: deleteSession_def AList.delete_conv')
  have swept: "map_of (snd (cleanupOldSessions t1 maxAgeInDays ?ss2)) sid = None"
    if "removes sid (CleanupOldSessions t1 maxAgeInDays) ?ss2"
    using that by (simp add: cleanup_map_of[OF d] s)
  from sid get valid gone swept show ?thesis
    by (simp add: getAccessToken_def isValidSession_def)
qed

theorem session_cache_faithful_witness:
  "fst (createSession ''ab12'' 1000 ''access-1'' ''item_1'' (run_ops demo_ops_before [])) = ''ab12''
   \<and> kept_by ''ab12'' demo_ops_after
        (snd (createSession ''ab12'' 1000 ''access-1'' ''item_1'' (run_ops demo_ops_before [])))
   \<and> fst (getAccessToken 6000 ''ab12'' (run_ops demo_ops_after
        (snd (createSession ''ab12'' 1000 ''access-1'' ''item_1'' (run_ops demo_ops_before [])))))
       = Some ''access-1''
   \<and> isValidSession ''ab12'' (run_ops demo_ops_after
        (snd (createSession ''ab12'' 1000 ''access-1'' ''item_1'' (run_ops demo_ops_before []))))
   \<and> \<not> isValidSession ''ab12'' (snd (deleteSession ''ab12'' (run_ops demo_ops_after
        (snd (createSession ''ab12'' 1000 ''access-1'' ''item_1'' (run_ops demo_ops_before []))))))
   \<and> removes ''ab12'' (CleanupOldSessions 2592002001 None) (run_ops demo_ops_after
        (snd (createSession ''ab12'' 1000 ''access-1'' ''item_1'' (run_ops demo_ops_before []))))
   \<and> fst (getAccessToken 2592002002 ''ab12'' (snd (cleanupOldSessions 2592002001 None
        (run_ops demo_ops_after
          (snd (createSession ''ab12'' 1000 ''access-1'' ''item_1'' (run_ops demo_ops_before [])))))))
       = None
   \<and> \<not> isValidSession ''ab12'' (snd (cleanupOldSessions 2592002001 None (run_ops demo_ops_after
        (snd (createSession ''ab12'' 1000 ''access-1'' ''item_1'' (run_ops demo_ops_before []))))))"
proof -
  let ?c = "createSession ''ab12'' 1000 ''access-1'' ''item_1'' (run_ops demo_ops_before [])"
  have sid: "fst ?c = ''ab12''"
    by (simp add: createSession_def Let_def)
  have pair: "?c = (''ab12'', snd ?c)"
    using sid by (simp add: prod_eq_iff)
  have final: "run_ops demo_ops_after (snd ?c) =
      [(''ab12'', \<lparr>sessionId = ''ab12'', accessToken = ''access-1'', itemId = ''item_1'',
          createdAt = 1000, lastAccessedAt = 2000\<rparr>),
       (''cd34'', \<lparr>sessionId = ''cd34'', accessToken = ''access-2'', itemId = ''item_2'',
          createdAt = 3000, lastAccessedAt = 3000\<rparr>)]"
    by (simp add: demo_ops_before_def demo_ops_after_def createSession_def getAccessToken_def
        deleteSession_def cleanupOldSessions_def max_age_ms_def Let_def)
  have kept: "kept_by ''ab12'' demo_ops_after (snd ?c)"
    by (simp add: demo_ops_before_def demo_ops_after_def createSession_def getAccessToken_def
        deleteSession_def cleanupOldSessions_def max_age_ms_def Let_def)
  have old: "removes ''ab12'' (CleanupOldSessions 2592002001 None) (run_ops demo_ops_after (snd ?c))"
    by (simp add: final max_age_ms_def)
  from session_cache_faithful[OF pair kept, of 6000 "None" 2592002002] sid kept
  have a: "fst (getAccessToken 6000 ''ab12'' (run_ops demo_ops_after (snd ?c))) = Some ''access-1''"
    and b: "isValidSession ''ab12'' (run_ops demo_ops_after (snd ?c))"
    and c: "\<not> isValidSession ''ab12'' (snd (deleteSession ''ab12'' (run_ops demo_ops_after (snd ?c))))"
    by simp_all
  from session_cache_faithful[OF pair kept, of 2592002001 "None" 2592002002] old
  have d: "fst (getAccessToken 2592002002 ''ab12'' (snd (cleanupOldSessions 2592002001 None
        (run_ops demo_ops_after (snd ?c))))) = None"
    and e: "\<not> isValidSession ''ab12'' (snd (cleanupOldSessions 2592002001 None
        (run_ops demo_ops_after (snd ?c))))"
    by simp_all
  from sid kept a b c old d e show ?thesis
    by blast
qed

end
